theory Spec2Isabelle
  imports Main
begin

section \<open>The wstunnel client (client.go)\<close>

text \<open>
  The program is one Go file. Its own functions (\<open>getTlsConfig\<close>, \<open>getWsConfig\<close>,
  \<open>iocopy\<close>, \<open>closeWrite\<close>, \<open>getProxiedConn\<close>, \<open>handleConnection\<close>, \<open>main\<close>) are
  embedded below, statement by statement. Everything they call in the Go standard
  library and in golang.org/x/net (the file system, the proxy environment, the network,
  the URL printer and parser, the PEM decoder, the WebSocket handshake) is not part of
  the program: each such call is a field of the record \<open>world\<close>, an arbitrary function
  that gives the answer of the library to the arguments the program passes. The two pure
  string functions \<open>strings.Split\<close> and \<open>strings.Replace\<close> are written out.

  Effects are a trace: a function that performs I/O returns the list of the events it
  caused, in program order, next to its result.
\<close>

subsection \<open>Command line flags\<close>

record flags =
  certsDir :: string
  serverName :: string
  targetHost :: string
  port :: int
  listenAddr :: string

subsection \<open>Library data\<close>

text \<open>
  Go's \<open>error\<close> values. \<open>ErrPersistEOF\<close> is \<open>httputil.ErrPersistEOF\<close>;
  \<open>FailedReadingCA e\<close> is \<open>fmt.Errorf("Failed reading CA certificate: %v", e)\<close>;
  \<open>IndexOutOfRange\<close> is the run-time panic of an index expression (a panic of
  \<open>getTlsConfig\<close> unwinds through \<open>main\<close> and aborts the process, as \<open>panic(err)\<close> does);
  \<open>LibError s\<close> is any other error a library call returns.
\<close>

datatype error = ErrPersistEOF | LibError string | FailedReadingCA error | IndexOutOfRange

type_synonym cert = string

datatype CurveID = CurveP521 | CurveP384 | CurveP256

datatype tls_version = VersionTLS12

datatype cipher_suite =
  TLS_ECDHE_RSA_WITH_AES_256_GCM_SHA384
| TLS_ECDHE_ECDSA_WITH_AES_256_GCM_SHA384

record tls_config =
  RootCAs :: "cert list"
  CurvePreferences :: "CurveID list"
  MinVersion :: tls_version
  CipherSuites :: "cipher_suite list"
  ServerName :: string

text \<open>The fields of \<open>url.URL\<close> the program sets or reads.\<close>

record url =
  Scheme :: string
  Host :: string

text \<open>The fields of \<open>websocket.Config\<close> the program sets or reads.\<close>

record ws_config =
  Location :: url
  Origin :: url
  TlsConfig :: "tls_config option"

text \<open>
  A socket is its identity and the bytes its peer sends that nobody has read yet.
  A connection value (\<open>net.Conn\<close>) is a socket, a TLS client wrapped around a
  connection (\<open>tls.Client\<close>), or a WebSocket connection wrapped around one
  (the result of \<open>websocket.NewClient\<close>).
\<close>

datatype sock = Sock (sid: nat) (unread: string)

datatype conn =
  Raw sock
| TlsClient conn "tls_config option"
| WsConn conn

text \<open>\<open>proxy.FromEnvironment\<close> returns \<open>proxy.Direct\<close> or a dialer for the proxy it found.\<close>

datatype dialer = Direct | ProxyDialer string

text \<open>
  What one \<open>cc.Do\<close> of an \<open>httputil.ClientConn\<close> did: the error it returns, how many
  bytes of the socket's input the response took, and how many further bytes its
  buffered reader pulled from the socket while reading the response.
\<close>

record do_result =
  do_err :: "error option"
  resp_len :: nat
  read_ahead :: nat

subsection \<open>The library and the environment\<close>

record world =
  path_Join :: "string \<Rightarrow> string \<Rightarrow> string"
  ReadFile :: "string \<Rightarrow> error + string"
  AppendCertsFromPEM :: "string \<Rightarrow> cert list"
  url_String :: "url \<Rightarrow> string"
  ParseRequestURI :: "string \<Rightarrow> error + url"
  FromEnvironment :: dialer
  dialer_Dial :: "dialer \<Rightarrow> string \<Rightarrow> error + sock"
  ProxyFromEnvironment :: "url \<Rightarrow> url option \<times> error option"
  net_Dial :: "string \<Rightarrow> error + sock"
  client_Do :: "sock \<Rightarrow> string \<Rightarrow> do_result"
  implementsCloseable :: "conn \<Rightarrow> bool"
  NewClient :: "ws_config \<Rightarrow> conn \<Rightarrow> error option"
  io_Copy :: "conn \<Rightarrow> conn \<Rightarrow> error option option"
  local_pump_first :: bool
  net_Listen :: "string \<Rightarrow> int \<Rightarrow> error option"

text \<open>
  \<^item> \<open>AppendCertsFromPEM w pem\<close> is the list of certificates \<open>x509\<close> decodes from
    \<open>pem\<close> and appends to the pool; it is empty when nothing in \<open>pem\<close> parses (the Go
    function then returns \<open>false\<close>).
  \<^item> \<open>ProxyFromEnvironment\<close> returns a pair, as in Go: the proxy URL (or nil) and an error
    (or nil).
  \<^item> \<open>implementsCloseable w c\<close> says whether the dynamic type of \<open>c\<close> has a
    \<open>CloseWrite\<close> method (the type assertion \<open>conn.(closeable)\<close>).
  \<^item> \<open>NewClient w cfg c\<close> is the error of the WebSocket upgrade over \<open>c\<close>, or \<open>None\<close>.
    On an error \<open>websocket.NewClient\<close> leaves \<open>c\<close> open: closing it is its caller's
    duty.
  \<^item> \<open>io_Copy w dst src\<close> is what \<open>io.Copy(dst, src)\<close> does in a session: \<open>None\<close> when
    it never returns (nothing has a deadline), \<open>Some None\<close> when it returns \<open>nil\<close> (the
    source reached its end), \<open>Some (Some e)\<close> when it returns the error \<open>e\<close>.
  \<^item> \<open>local_pump_first w\<close> is the scheduler: whether the value of the pump started
    first (local to upstream) arrives on the channel before that of the other pump.
  \<^item> \<open>net_Listen w addr p\<close> is \<open>net.Listen("tcp", fmt.Sprintf("%s:%d", addr, p))\<close>.
\<close>

subsection \<open>\<open>strings.Split\<close> and \<open>strings.Replace\<close>\<close>

text \<open>
  \<open>strings.Split(s, sep)\<close> for a non-empty separator: the pieces of \<open>s\<close> between the
  occurrences of \<open>sep\<close>, found left to right. \<open>cur\<close> is the piece being collected.
  (With an empty separator Go splits after each UTF-8 sequence; the program never
  does that, and the model splits after each byte.)
\<close>

function strings_Split_from :: "string \<Rightarrow> string \<Rightarrow> string \<Rightarrow> string list" where
  "strings_Split_from sep cur s =
     (if s = [] then (if sep = [] then [] else [cur])
      else if sep = [] then [hd s] # strings_Split_from sep cur (tl s)
      else if take (length sep) s = sep
        then cur # strings_Split_from sep [] (drop (length sep) s)
      else strings_Split_from sep (cur @ [hd s]) (tl s))"
  by pat_completeness auto
termination
  by (relation "measure (\<lambda>(sep, cur, s). length s)") auto

definition strings_Split :: "string \<Rightarrow> string \<Rightarrow> string list" where
  "strings_Split s sep = strings_Split_from sep [] s"

text \<open>
  \<open>strings.Replace(s, old, new, n)\<close> for \<open>n \<ge> 0\<close>: the first \<open>n\<close> non-overlapping
  occurrences of \<open>old\<close> are replaced by \<open>new\<close>.
\<close>

function strings_Replace :: "string \<Rightarrow> string \<Rightarrow> string \<Rightarrow> nat \<Rightarrow> string" where
  "strings_Replace s old new n =
     (if n = 0 then s
      else if old = [] then
        new @ (case s of [] \<Rightarrow> [] | c # cs \<Rightarrow> c # strings_Replace cs old new (n - 1))
      else if s = [] then []
      else if take (length old) s = old
        then new @ strings_Replace (drop (length old) s) old new (n - 1)
      else hd s # strings_Replace (tl s) old new n)"
  by pat_completeness auto
termination
  by (relation "measure (\<lambda>(s, old, new, n). length s)") auto

subsection \<open>\<open>getTlsConfig\<close>\<close>

definition getTlsConfig :: "world \<Rightarrow> flags \<Rightarrow> error + tls_config option" where
  "getTlsConfig w fl =
     (if certsDir fl = [] then Inr None
      else
        let tlscfg = \<lparr> RootCAs = [],
                       CurvePreferences = [CurveP521, CurveP384, CurveP256],
                       MinVersion = VersionTLS12,
                       CipherSuites = [TLS_ECDHE_RSA_WITH_AES_256_GCM_SHA384,
                                       TLS_ECDHE_ECDSA_WITH_AES_256_GCM_SHA384],
                       ServerName = [] \<rparr>
        in (case ReadFile w (path_Join w (certsDir fl) ''cacert.pem'') of
              Inl err \<Rightarrow> Inl (FailedReadingCA err)
            | Inr ca \<Rightarrow>
                (let tlscfg = tlscfg\<lparr> RootCAs := RootCAs tlscfg @ AppendCertsFromPEM w ca \<rparr>
                 in (case strings_Split (targetHost fl) '':'' of
                       [] \<Rightarrow> Inl IndexOutOfRange
                     | h # _ \<Rightarrow>
                         (let tlscfg = tlscfg\<lparr> ServerName := h \<rparr>;
                              tlscfg = (if serverName fl \<noteq> []
                                        then tlscfg\<lparr> ServerName := serverName fl \<rparr>
                                        else tlscfg)
                          in Inr (Some tlscfg))))))"

subsection \<open>\<open>getWsConfig\<close>\<close>

text \<open>The URL built in the first lines of \<open>getWsConfig\<close>.\<close>

definition ws_url :: "flags \<Rightarrow> url" where
  "ws_url fl =
     (let u = \<lparr> Scheme = ''ws'', Host = targetHost fl \<rparr>
      in if certsDir fl \<noteq> [] then u\<lparr> Scheme := ''wss'' \<rparr> else u)"

text \<open>
  \<open>websocket.NewConfig(server, origin)\<close> parses its two arguments with
  \<open>url.ParseRequestURI\<close> and fails when one of them does not parse.
\<close>

definition websocket_NewConfig :: "world \<Rightarrow> string \<Rightarrow> string \<Rightarrow> error + ws_config" where
  "websocket_NewConfig w server origin =
     (case ParseRequestURI w server of
        Inl err \<Rightarrow> Inl err
      | Inr l \<Rightarrow>
          (case ParseRequestURI w origin of
             Inl err \<Rightarrow> Inl err
           | Inr orig \<Rightarrow> Inr \<lparr> Location = l, Origin = orig, TlsConfig = None \<rparr>))"

definition getWsConfig :: "world \<Rightarrow> flags \<Rightarrow> error + ws_config" where
  "getWsConfig w fl =
     (case websocket_NewConfig w (url_String w (ws_url fl)) ''http://localhost/'' of
        Inl err \<Rightarrow> Inl err
      | Inr config \<Rightarrow>
          (case getTlsConfig w fl of
             Inl err \<Rightarrow> Inl err
           | Inr t \<Rightarrow> Inr (config\<lparr> TlsConfig := t \<rparr>)))"


subsection \<open>Events\<close>

text \<open>
  What a session and the start-up do to the outside, in program order:
  \<^item> \<open>DialVia d a\<close>: \<open>d.Dial("tcp", a)\<close> on the dialer of the proxy environment;
  \<^item> \<open>NetDial a\<close>: \<open>net.Dial("tcp", a)\<close>;
  \<^item> \<open>DoConnect s h\<close>: \<open>cc.Do\<close> of a \<open>CONNECT\<close> request with \<open>Host: h\<close> on socket \<open>s\<close>;
  \<^item> \<open>Hijacked s\<close>: \<open>cc.Hijack()\<close>;
  \<^item> \<open>NewClientCall c\<close>: \<open>websocket.NewClient(wsConfig, c)\<close>;
  \<^item> \<open>Go dst src\<close>: \<open>go iocopy(dst, src, c)\<close>;
  \<^item> \<open>Recv v\<close>: the receive \<open><-c\<close> returned \<open>v\<close>;
  \<^item> \<open>Log p e\<close>: \<open>log.Print(p, e)\<close>, and \<open>Print p e\<close>: \<open>fmt.Print(p, e)\<close>;
  \<^item> \<open>CloseWrite c\<close> and \<open>Close c\<close>: the method calls on \<open>c\<close>;
  \<^item> \<open>Listen a p\<close>: \<open>net.Listen\<close> on address \<open>a\<close>, port \<open>p\<close>.
\<close>

datatype event =
  DialVia dialer string
| NetDial string
| DoConnect sock string
| Hijacked sock
| NewClientCall conn
| Go conn conn
| Recv "error option"
| Log string error
| Print string error
| CloseWrite conn
| Close conn
| Listen string int

subsection \<open>\<open>iocopy\<close> and \<open>closeWrite\<close>\<close>

text \<open>
  \<open>iocopy\<close> runs as a goroutine; its effect on the session is what it sends on the
  channel \<open>c\<close>: the result of the copy, once, if the copy returns.
\<close>

definition iocopy :: "world \<Rightarrow> conn \<Rightarrow> conn \<Rightarrow> error option list" where
  "iocopy w dst src = (case io_Copy w dst src of None \<Rightarrow> [] | Some err \<Rightarrow> [err])"

definition closeWrite :: "world \<Rightarrow> conn \<Rightarrow> event list" where
  "closeWrite w c = (if implementsCloseable w c then [CloseWrite c] else [])"

subsection \<open>\<open>getProxiedConn\<close>\<close>

text \<open>
  \<open>httputil.ClientConn\<close>: the socket and the content of its buffered reader.
  \<open>ClientConn_Do\<close> reads the response through the buffered reader, which may take more
  bytes from the socket than the response has; \<open>ClientConn_Hijack\<close> returns the socket
  and the reader with what is left in it.
\<close>

record client_conn =
  cc_c :: sock
  cc_r :: string

definition NewProxyClientConn :: "sock \<Rightarrow> client_conn" where
  "NewProxyClientConn p = \<lparr> cc_c = p, cc_r = [] \<rparr>"

definition ClientConn_Do :: "world \<Rightarrow> client_conn \<Rightarrow> string \<Rightarrow> error option \<times> client_conn" where
  "ClientConn_Do w cc host =
     (let s = cc_c cc; r = client_Do w s host
      in (do_err r,
          \<lparr> cc_c = Sock (sid s) (drop (resp_len r + read_ahead r) (unread s)),
            cc_r = take (read_ahead r) (drop (resp_len r) (unread s)) \<rparr>))"

definition ClientConn_Hijack :: "client_conn \<Rightarrow> conn \<times> string" where
  "ClientConn_Hijack cc = (Raw (cc_c cc), cc_r cc)"

text \<open>A dial result as a \<open>net.Conn\<close>.\<close>

definition as_conn :: "error + sock \<Rightarrow> error + conn" where
  "as_conn r = (case r of Inl err \<Rightarrow> Inl err | Inr s \<Rightarrow> Inr (Raw s))"

definition getProxiedConn :: "world \<Rightarrow> url \<Rightarrow> event list \<times> (error + conn)" where
  "getProxiedConn w turl =
     (let dialer = FromEnvironment w in
      if dialer \<noteq> Direct
      then ([DialVia dialer (Host turl)], as_conn (dialer_Dial w dialer (Host turl)))
      else
        let turl = turl\<lparr> Scheme := strings_Replace (Scheme turl) ''ws'' ''http'' 1 \<rparr>;
            (proxyURL, err) = ProxyFromEnvironment w turl
        in (case proxyURL of
              None \<Rightarrow> ([NetDial (Host turl)], as_conn (net_Dial w (Host turl)))
            | Some pu \<Rightarrow>
                (case net_Dial w (Host pu) of
                   Inl err \<Rightarrow> ([NetDial (Host pu)], Inl err)
                 | Inr p \<Rightarrow>
                     (let cc = NewProxyClientConn p;
                          (err, cc) = ClientConn_Do w cc (Host turl);
                          hijack = (let (conn, _) = ClientConn_Hijack cc
                                    in ([NetDial (Host pu), DoConnect p (Host turl), Hijacked p],
                                        Inr conn))
                      in (case err of
                            None \<Rightarrow> hijack
                          | Some e \<Rightarrow>
                              if e \<noteq> ErrPersistEOF
                              then ([NetDial (Host pu), DoConnect p (Host turl)], Inl e)
                              else hijack)))))"

subsection \<open>\<open>handleConnection\<close>\<close>

text \<open>
  A call either returns or blocks for ever on a receive from the channel (when a pump
  never finishes). The dial and the handshake are taken to return.
\<close>

datatype outcome = Returns | Blocks

text \<open>
  The values on the channel \<open>c\<close>, in order of arrival: those of the two goroutines
  \<open>iocopy(ws, conn, c)\<close> and \<open>iocopy(conn, ws, c)\<close>. The channel has room for both, so no
  send blocks.
\<close>

definition channel :: "world \<Rightarrow> conn \<Rightarrow> conn \<Rightarrow> error option list" where
  "channel w ws conn =
     (if local_pump_first w then iocopy w ws conn @ iocopy w conn ws
      else iocopy w conn ws @ iocopy w ws conn)"

text \<open>
  The loop \<open>for i := 0; i < 2; i++\<close>, from \<open>i\<close>, with \<open>ch\<close> the values still to arrive.
  Its result says whether the function gets to its end (by the \<open>return\<close> in the loop or
  by leaving the loop: nothing follows the loop but the deferred calls).
\<close>

function pump_loop :: "world \<Rightarrow> conn \<Rightarrow> conn \<Rightarrow> nat \<Rightarrow> error option list \<Rightarrow> event list \<times> outcome" where
  "pump_loop w conn tcp i ch =
     (if i < 2 then
        (case ch of
           [] \<Rightarrow> ([], Blocks)
         | Some err # _ \<Rightarrow> ([Recv (Some err), Print ''io.Copy(): '' err], Returns)
         | None # ch' \<Rightarrow>
             (let (evs, r) = pump_loop w conn tcp (i + 1) ch'
              in (Recv None # closeWrite w conn @ closeWrite w tcp @ evs, r)))
      else ([], Returns))"
  by pat_completeness auto
termination
  by (relation "measure (\<lambda>(w, conn, tcp, i, ch). 2 - i)") auto

text \<open>The upstream connection after the lines \<open>if *certsDir != "" { tcp = tls.Client(...) }\<close>.\<close>

definition wrap_tls :: "flags \<Rightarrow> ws_config \<Rightarrow> conn \<Rightarrow> conn" where
  "wrap_tls fl wsConfig tcp =
     (if certsDir fl \<noteq> [] then TlsClient tcp (TlsConfig wsConfig) else tcp)"

text \<open>
  The deferred calls run when the function returns, last deferred first:
  \<open>conn.Close()\<close> is deferred on entry, \<open>ws.Close()\<close> after the handshake.
\<close>

definition handleConnection :: "world \<Rightarrow> flags \<Rightarrow> ws_config \<Rightarrow> conn \<Rightarrow> event list \<times> outcome" where
  "handleConnection w fl wsConfig conn =
     (case getProxiedConn w (Location wsConfig) of
        (dial, Inl err) \<Rightarrow> (dial @ [Log ''getProxiedConn(): '' err] @ [Close conn], Returns)
      | (dial, Inr tcp) \<Rightarrow>
          (let tcp = wrap_tls fl wsConfig tcp
           in (case NewClient w wsConfig tcp of
                 Some err \<Rightarrow>
                   (dial @ [NewClientCall tcp, Log ''websocket.NewClient(): '' err] @ [Close conn],
                    Returns)
               | None \<Rightarrow>
                   (let ws = WsConn tcp;
                        (evs, r) = pump_loop w conn tcp 0 (channel w ws conn)
                    in (dial @ [NewClientCall tcp, Go ws conn, Go conn ws] @ evs @
                          (case r of Returns \<Rightarrow> [Close ws, Close conn] | Blocks \<Rightarrow> []),
                        r)))))"

subsection \<open>\<open>main\<close>\<close>

text \<open>
  \<open>main\<close> up to its accept loop: it panics, or it has a listener and starts accepting
  (the loop itself never ends and starts one \<open>handleConnection\<close> per accepted connection).
\<close>

datatype main_result = Panic error | AcceptLoop ws_config

definition main :: "world \<Rightarrow> flags \<Rightarrow> event list \<times> main_result" where
  "main w fl =
     (case getWsConfig w fl of
        Inl err \<Rightarrow> ([], Panic err)
      | Inr wsConfig \<Rightarrow>
          (case net_Listen w (listenAddr fl) (port fl) of
             Some err \<Rightarrow> ([Listen (listenAddr fl) (port fl)], Panic err)
           | None \<Rightarrow> ([Listen (listenAddr fl) (port fl)], AcceptLoop wsConfig)))"

subsection \<open>The bytes of a half-closed session\<close>

text \<open>
  The trace model takes the result of each \<open>io.Copy\<close> from the world. For a session
  whose first pump to end ends at the end of its input, what follows derives the result
  of the other pump, and the bytes it writes, from the chunks it has to copy. It rests
  on these facts of the Go library:
  \<^item> \<open>CloseWrite\<close> shuts the write side of the connection it is called on
    (\<open>shut_by\<close>: the connections a list of events has shut);
  \<^item> a \<open>websocket.Conn\<close> writes to the connection it wraps (\<open>write_target\<close>);
  \<^item> \<open>io.Copy\<close> reads a chunk and writes it, again and again; a \<open>Write\<close> to a
    connection whose write side is shut fails, and \<open>io.Copy\<close> returns that error at
    once; at the end of its input it returns \<open>nil\<close>, or the read error that ended it
    (\<open>io_Copy_bytes shut chunks fin\<close>: the result and the bytes written).
\<close>

fun write_target :: "conn \<Rightarrow> conn" where
  "write_target (WsConn c) = c"
| "write_target c = c"

definition shut_by :: "event list \<Rightarrow> conn list" where
  "shut_by evs = concat (map (\<lambda>e. case e of CloseWrite c \<Rightarrow> [c] | _ \<Rightarrow> []) evs)"

fun io_Copy_bytes :: "bool \<Rightarrow> string list \<Rightarrow> error option \<Rightarrow> error option \<times> string" where
  "io_Copy_bytes shut [] fin = (fin, [])"
| "io_Copy_bytes shut (b # bs) fin =
     (if shut then (Some (LibError ''write: broken pipe''), [])
      else (case io_Copy_bytes shut bs fin of (err, out) \<Rightarrow> (err, b @ out)))"

text \<open>
  Such a session: which pump ends first (\<open>local_ends_first\<close>: the one started by
  \<open>go iocopy(ws, conn, c)\<close>), the chunks it copies before the end of its input, the
  chunks the source of the other pump delivers and how that source ends (\<open>None\<close> is the
  end of input), and how many of those chunks the other pump has written when
  \<open>handleConnection\<close> receives the first completion.
\<close>

record half_close_session =
  local_ends_first :: bool
  first_reads :: "string list"
  other_reads :: "string list"
  other_end :: "error option"
  written_before :: nat

text \<open>
  The other pump is \<open>iocopy(conn, ws, c)\<close> when the local one ends first, and
  \<open>iocopy(ws, conn, c)\<close> otherwise: \<open>other_dst\<close> is what it writes to. After the first
  completion \<open>handleConnection\<close> runs \<open>closeWrite(conn); closeWrite(tcp)\<close>, and the other
  pump copies its remaining chunks with the write sides these two calls have shut
  (\<open>other_copy\<close>). \<open>other_written\<close> is all it writes in the session.
\<close>

definition other_dst :: "half_close_session \<Rightarrow> conn \<Rightarrow> conn \<Rightarrow> conn" where
  "other_dst s ws conn = (if local_ends_first s then conn else ws)"

definition other_copy ::
  "world \<Rightarrow> half_close_session \<Rightarrow> conn \<Rightarrow> conn \<Rightarrow> conn \<Rightarrow> error option \<times> string" where
  "other_copy w s ws conn tcp =
     io_Copy_bytes
       (write_target (other_dst s ws conn) \<in> set (shut_by (closeWrite w conn @ closeWrite w tcp)))
       (drop (written_before s) (other_reads s)) (other_end s)"

definition other_written ::
  "world \<Rightarrow> half_close_session \<Rightarrow> conn \<Rightarrow> conn \<Rightarrow> conn \<Rightarrow> string" where
  "other_written w s ws conn tcp =
     concat (take (written_before s) (other_reads s)) @ snd (other_copy w s ws conn tcp)"

text \<open>
  The world of the session: \<open>w\<close> with the results of the two \<open>io.Copy\<close> calls and the
  order of their completions as the session has them.
\<close>

definition session_world ::
  "world \<Rightarrow> half_close_session \<Rightarrow> conn \<Rightarrow> conn \<Rightarrow> conn \<Rightarrow> world" where
  "session_world w s ws conn tcp =
     w\<lparr> io_Copy :=
          (\<lambda>dst src. if dst = other_dst s ws conn then Some (fst (other_copy w s ws conn tcp))
                     else Some (fst (io_Copy_bytes False (first_reads s) None))),
        local_pump_first := local_ends_first s \<rparr>"

subsection \<open>Reading a trace\<close>

text \<open>The values received from the channel, and the errors printed, in order.\<close>

definition received :: "event list \<Rightarrow> error option list" where
  "received evs = concat (map (\<lambda>e. case e of Recv v \<Rightarrow> [v] | _ \<Rightarrow> []) evs)"

definition printed :: "event list \<Rightarrow> error list" where
  "printed evs = concat (map (\<lambda>e. case e of Print p x \<Rightarrow> [x] | _ \<Rightarrow> []) evs)"

subsection \<open>Sample configurations and environments\<close>

text \<open>
  Concrete inputs for the instances below. \<open>example_flags\<close> asks for TLS to
  \<open>example.com:443\<close>, \<open>plain_flags\<close> for no TLS; \<open>plain_config\<close> is the WebSocket
  configuration of \<open>plain_flags\<close>. In \<open>example_world\<close> there is no proxy, every call
  succeeds and both pumps end without error, the local one first.
\<close>

definition example_flags :: flags where
  "example_flags =
     \<lparr> certsDir = ''/certs'', serverName = [], targetHost = ''example.com:443'',
       port = 8080, listenAddr = ''127.0.0.1'' \<rparr>"

definition plain_flags :: flags where
  "plain_flags = example_flags\<lparr> certsDir := [] \<rparr>"

definition example_url :: url where
  "example_url = \<lparr> Scheme = ''wss'', Host = ''example.com:443'' \<rparr>"

definition plain_config :: ws_config where
  "plain_config =
     \<lparr> Location = \<lparr> Scheme = ''ws'', Host = ''example.com:443'' \<rparr>,
       Origin = \<lparr> Scheme = ''http'', Host = ''localhost'' \<rparr>,
       TlsConfig = None \<rparr>"

definition example_config :: ws_config where
  "example_config =
     \<lparr> Location = example_url,
       Origin = \<lparr> Scheme = ''http'', Host = ''localhost'' \<rparr>,
       TlsConfig = Some \<lparr> RootCAs = [''CA''],
                            CurvePreferences = [CurveP521, CurveP384, CurveP256],
                            MinVersion = VersionTLS12,
                            CipherSuites = [TLS_ECDHE_RSA_WITH_AES_256_GCM_SHA384,
                                            TLS_ECDHE_ECDSA_WITH_AES_256_GCM_SHA384],
                            ServerName = ''example.com'' \<rparr> \<rparr>"

definition local_conn :: conn where
  "local_conn = Raw (Sock 10 [])"

definition example_world :: world where
  "example_world =
     \<lparr> path_Join = (\<lambda>d f. d @ ''/'' @ f),
       ReadFile = (\<lambda>p. if p = ''/certs/cacert.pem'' then Inr ''PEM of one CA''
                       else Inl (LibError ''no such file'')),
       AppendCertsFromPEM = (\<lambda>pem. if pem = ''PEM of one CA'' then [''CA''] else []),
       url_String = (\<lambda>u. Scheme u @ ''://'' @ Host u),
       ParseRequestURI =
         (\<lambda>s. if s = ''http://localhost/'' then Inr \<lparr> Scheme = ''http'', Host = ''localhost'' \<rparr>
              else if take 5 s = ''ws://'' then Inr \<lparr> Scheme = ''ws'', Host = drop 5 s \<rparr>
              else if take 6 s = ''wss://'' then Inr \<lparr> Scheme = ''wss'', Host = drop 6 s \<rparr>
              else Inl (LibError ''invalid URI for request'')),
       FromEnvironment = Direct,
       dialer_Dial = (\<lambda>d a. Inr (Sock 12 [])),
       ProxyFromEnvironment = (\<lambda>u. (None, None)),
       net_Dial = (\<lambda>a. Inr (Sock 11 [])),
       client_Do = (\<lambda>s h. \<lparr> do_err = None, resp_len = 0, read_ahead = 0 \<rparr>),
       implementsCloseable = (\<lambda>c. case c of WsConn _ \<Rightarrow> False | _ \<Rightarrow> True),
       NewClient = (\<lambda>cfg c. None),
       io_Copy = (\<lambda>dst src. Some None),
       local_pump_first = True,
       net_Listen = (\<lambda>a p. None) \<rparr>"

text \<open>The CA bundle is readable and holds nothing that parses.\<close>

definition garbage_world :: world where
  "garbage_world = example_world\<lparr> ReadFile := (\<lambda>p. Inr ''not a certificate'') \<rparr>"

text \<open>
  Proxy environments: a SOCKS5 proxy next to an HTTP proxy; an HTTP proxy alone, found for
  the schemes \<open>http\<close> and \<open>https\<close> only, whose socket has twelve bytes to read, of
  which \<open>cc.Do\<close> takes seven as the response and five more into its buffer; the same
  with a \<open>cc.Do\<close> that ends with \<open>ErrPersistEOF\<close>, and with one that fails; and a proxy
  variable that does not parse.
\<close>

definition proxy_url :: url where
  "proxy_url = \<lparr> Scheme = ''http'', Host = ''proxy.internal:3128'' \<rparr>"

definition socks_world :: world where
  "socks_world =
     example_world\<lparr> FromEnvironment := ProxyDialer ''socks5://127.0.0.1:1080'',
                     ProxyFromEnvironment := (\<lambda>u. (Some proxy_url, None)) \<rparr>"

definition http_proxy_world :: world where
  "http_proxy_world =
     example_world\<lparr>
       ProxyFromEnvironment :=
         (\<lambda>u. if Scheme u = ''http'' \<or> Scheme u = ''https'' then (Some proxy_url, None)
              else (None, None)),
       net_Dial := (\<lambda>a. Inr (Sock 11 ''200 OK;early'')),
       client_Do := (\<lambda>s h. \<lparr> do_err = None, resp_len = 7, read_ahead = 5 \<rparr>) \<rparr>"

definition persist_eof_world :: world where
  "persist_eof_world =
     http_proxy_world\<lparr> client_Do :=
       (\<lambda>s h. \<lparr> do_err = Some ErrPersistEOF, resp_len = 7, read_ahead = 5 \<rparr>) \<rparr>"

definition refused_world :: world where
  "refused_world =
     http_proxy_world\<lparr> client_Do :=
       (\<lambda>s h. \<lparr> do_err = Some (LibError ''unexpected EOF''), resp_len = 0, read_ahead = 0 \<rparr>) \<rparr>"

definition bad_proxy_env_world :: world where
  "bad_proxy_env_world =
     example_world\<lparr> ProxyFromEnvironment :=
       (\<lambda>u. (None, Some (LibError ''invalid proxy address''))) \<rparr>"

text \<open>
  Sessions: one whose local-to-upstream pump fails while the other ends normally, one
  whose upstream-to-local pump ends first and whose other pump fails, one whose pumps
  both fail, and one whose WebSocket upgrade is refused.
\<close>

definition reset_world :: world where
  "reset_world =
     example_world\<lparr> io_Copy :=
       (\<lambda>dst src. case dst of WsConn _ \<Rightarrow> Some (Some (LibError ''connection reset by peer''))
                   | _ \<Rightarrow> Some None) \<rparr>"

definition late_reset_world :: world where
  "late_reset_world = reset_world\<lparr> local_pump_first := False \<rparr>"

definition both_fail_world :: world where
  "both_fail_world =
     example_world\<lparr> io_Copy :=
       (\<lambda>dst src. case dst of WsConn _ \<Rightarrow> Some (Some (LibError ''connection reset by peer''))
                   | _ \<Rightarrow> Some (Some (LibError ''write: broken pipe''))) \<rparr>"



definition upgrade_refused_world :: world where
  "upgrade_refused_world =
     example_world\<lparr> NewClient := (\<lambda>cfg c. Some (LibError ''bad status'')) \<rparr>"

section \<open>Properties\<close>

subsection \<open>The configuration\<close>

declare strings_Split_from.simps [simp del] strings_Replace.simps [simp del] pump_loop.simps [simp del]

lemma strings_Split_from_colon:
  "\<exists>t. strings_Split_from '':'' cur s = (cur @ takeWhile (\<lambda>c. c \<noteq> CHR '':'') s) # t"
proof (induction s arbitrary: cur)
  case Nil
  show ?case by (subst strings_Split_from.simps) simp
next
  case (Cons c s)
  show ?case
  proof (cases "c = CHR '':''")
    case True
    then show ?thesis by (subst strings_Split_from.simps) simp
  next
    case False
    from Cons [of "cur @ [c]"] False show ?thesis
      by (subst strings_Split_from.simps) simp
  qed
qed

lemma strings_Split_colon:
  "\<exists>t. strings_Split s '':'' = takeWhile (\<lambda>c. c \<noteq> CHR '':'') s # t"
  using strings_Split_from_colon [of "[]" s] by (simp add: strings_Split_def)

lemma getTlsConfig_readable:
  assumes "certsDir fl \<noteq> []"
    and "ReadFile w (path_Join w (certsDir fl) ''cacert.pem'') = Inr ca"
  shows "getTlsConfig w fl =
           Inr (Some \<lparr> RootCAs = AppendCertsFromPEM w ca,
                        CurvePreferences = [CurveP521, CurveP384, CurveP256],
                        MinVersion = VersionTLS12,
                        CipherSuites = [TLS_ECDHE_RSA_WITH_AES_256_GCM_SHA384,
                                        TLS_ECDHE_ECDSA_WITH_AES_256_GCM_SHA384],
                        ServerName = (if serverName fl \<noteq> [] then serverName fl
                                      else takeWhile (\<lambda>c. c \<noteq> CHR '':'') (targetHost fl)) \<rparr>)"
proof -
  obtain t where "strings_Split (targetHost fl) '':'' =
      takeWhile (\<lambda>c. c \<noteq> CHR '':'') (targetHost fl) # t"
    using strings_Split_colon by blast
  with assms show ?thesis by (simp add: getTlsConfig_def)
qed

lemma getTlsConfig_index_in_range: "getTlsConfig w fl \<noteq> Inl IndexOutOfRange"
proof -
  obtain t where "strings_Split (targetHost fl) '':'' =
      takeWhile (\<lambda>c. c \<noteq> CHR '':'') (targetHost fl) # t"
    using strings_Split_colon by blast
  then show ?thesis by (simp add: getTlsConfig_def Let_def split: sum.splits)
qed

lemma getTlsConfig_unreadable:
  assumes "certsDir fl \<noteq> []"
    and "ReadFile w (path_Join w (certsDir fl) ''cacert.pem'') = Inl e"
  shows "getTlsConfig w fl = Inl (FailedReadingCA e)"
  using assms by (simp add: getTlsConfig_def)

text \<open>
  C6. With a CA directory set and its bundle readable, \<open>getTlsConfig\<close> returns a
  configuration whose server name for verification is the \<open>server_name\<close> flag when
  that is not empty, and otherwise the part of \<open>target_host\<close> before its first colon
  (all of it when it has none). (With an unreadable bundle there is no configuration.)
\<close>

theorem server_name_for_verification:
  assumes "certsDir fl \<noteq> []"
    and "ReadFile w (path_Join w (certsDir fl) ''cacert.pem'') = Inr ca"
  shows "\<exists>cfg. getTlsConfig w fl = Inr (Some cfg) \<and>
           ServerName cfg =
             (if serverName fl \<noteq> [] then serverName fl
              else takeWhile (\<lambda>c. c \<noteq> CHR '':'') (targetHost fl))"
  using getTlsConfig_readable [OF assms] by simp

lemma example_read:
  "ReadFile example_world (path_Join example_world (certsDir example_flags) ''cacert.pem'')
     = Inr ''PEM of one CA''"
  by (simp add: example_world_def example_flags_def)

theorem server_name_for_verification_witness:
  "certsDir example_flags \<noteq> [] \<and>
   ReadFile example_world (path_Join example_world (certsDir example_flags) ''cacert.pem'')
     = Inr ''PEM of one CA'' \<and>
   (\<exists>cfg. getTlsConfig example_world example_flags = Inr (Some cfg) \<and>
      ServerName cfg = ''example.com'')"
proof -
  have d: "certsDir example_flags \<noteq> []" by (simp add: example_flags_def)
  show ?thesis
    using d example_read server_name_for_verification [OF d example_read]
    by (simp add: example_flags_def)
qed

lemma main_config_error:
  "getTlsConfig w fl = Inl e \<Longrightarrow> \<exists>err. main w fl = ([], Panic err)"
  by (simp add: main_def getWsConfig_def split: sum.splits)

text \<open>
  C3, as the code has it. With a CA directory set, an unreadable CA bundle makes
  \<open>getTlsConfig\<close> fail with the read error wrapped, and \<open>main\<close> then panics before
  it listens. A readable bundle never fails: the certificates that parse in it, none
  when nothing parses, become the pool of root CAs of the configuration returned
  (the result of \<open>AppendCertsFromPEM\<close> is not looked at).
\<close>

theorem ca_bundle_unreadable:
  assumes "certsDir fl \<noteq> []"
  shows "case ReadFile w (path_Join w (certsDir fl) ''cacert.pem'') of
           Inl e \<Rightarrow> getTlsConfig w fl = Inl (FailedReadingCA e) \<and>
                    (\<exists>err. main w fl = ([], Panic err))
         | Inr ca \<Rightarrow> (\<exists>cfg. getTlsConfig w fl = Inr (Some cfg) \<and>
                         RootCAs cfg = AppendCertsFromPEM w ca)"
proof (cases "ReadFile w (path_Join w (certsDir fl) ''cacert.pem'')")
  case (Inl e)
  from getTlsConfig_unreadable [OF assms Inl] main_config_error Inl
  show ?thesis by fastforce
next
  case (Inr ca)
  from getTlsConfig_readable [OF assms Inr] Inr show ?thesis by simp
qed

theorem ca_bundle_unreadable_witness:
  "certsDir (example_flags\<lparr> certsDir := ''/missing'' \<rparr>) \<noteq> [] \<and>
   ReadFile example_world ''/missing/cacert.pem'' = Inl (LibError ''no such file'') \<and>
   getTlsConfig example_world (example_flags\<lparr> certsDir := ''/missing'' \<rparr>)
     = Inl (FailedReadingCA (LibError ''no such file'')) \<and>
   main example_world (example_flags\<lparr> certsDir := ''/missing'' \<rparr>)
     = ([], Panic (FailedReadingCA (LibError ''no such file''))) \<and>
   certsDir example_flags \<noteq> [] \<and>
   ReadFile example_world ''/certs/cacert.pem'' = Inr ''PEM of one CA'' \<and>
   (\<exists>cfg. getTlsConfig example_world example_flags = Inr (Some cfg) \<and> RootCAs cfg = [''CA''])"
proof -
  have d: "certsDir (example_flags\<lparr> certsDir := ''/missing'' \<rparr>) \<noteq> []" by simp
  have r: "ReadFile example_world ''/missing/cacert.pem'' = Inl (LibError ''no such file'')"
    by (simp add: example_world_def)
  have t: "getTlsConfig example_world (example_flags\<lparr> certsDir := ''/missing'' \<rparr>)
     = Inl (FailedReadingCA (LibError ''no such file''))"
    using ca_bundle_unreadable [OF d, of example_world]
    by (simp add: example_world_def)
  have m: "main example_world (example_flags\<lparr> certsDir := ''/missing'' \<rparr>)
     = ([], Panic (FailedReadingCA (LibError ''no such file'')))"
    unfolding main_def getWsConfig_def t
    by (simp add: websocket_NewConfig_def ws_url_def example_world_def example_flags_def)
  have d': "certsDir example_flags \<noteq> []" by (simp add: example_flags_def)
  have r': "ReadFile example_world ''/certs/cacert.pem'' = Inr ''PEM of one CA''"
    by (simp add: example_world_def)
  have t': "\<exists>cfg. getTlsConfig example_world example_flags = Inr (Some cfg) \<and>
      RootCAs cfg = [''CA'']"
    using ca_bundle_unreadable [OF d', of example_world] example_read
    by (simp add: example_world_def)
  show ?thesis using d r t m d' r' t' by simp
qed

text \<open>
  C3 as stated fails: in \<open>garbage_world\<close> the bundle is readable and nothing in it
  parses, yet \<open>getTlsConfig\<close> returns a configuration (with no root CA) and \<open>main\<close>
  goes on to listen.
\<close>

theorem unparsable_bundle_accepted:
  "certsDir example_flags \<noteq> [] \<and>
   ReadFile garbage_world (path_Join garbage_world (certsDir example_flags) ''cacert.pem'')
     = Inr ''not a certificate'' \<and>
   AppendCertsFromPEM garbage_world ''not a certificate'' = [] \<and>
   getTlsConfig garbage_world example_flags =
     Inr (Some \<lparr> RootCAs = [],
                  CurvePreferences = [CurveP521, CurveP384, CurveP256],
                  MinVersion = VersionTLS12,
                  CipherSuites = [TLS_ECDHE_RSA_WITH_AES_256_GCM_SHA384,
                                  TLS_ECDHE_ECDSA_WITH_AES_256_GCM_SHA384],
                  ServerName = ''example.com'' \<rparr>) \<and>
   main garbage_world example_flags =
     ([Listen ''127.0.0.1'' 8080],
      AcceptLoop \<lparr> Location = \<lparr> Scheme = ''wss'', Host = ''example.com:443'' \<rparr>,
                   Origin = \<lparr> Scheme = ''http'', Host = ''localhost'' \<rparr>,
                   TlsConfig = Some \<lparr> RootCAs = [],
                     CurvePreferences = [CurveP521, CurveP384, CurveP256],
                     MinVersion = VersionTLS12,
                     CipherSuites = [TLS_ECDHE_RSA_WITH_AES_256_GCM_SHA384,
                                     TLS_ECDHE_ECDSA_WITH_AES_256_GCM_SHA384],
                     ServerName = ''example.com'' \<rparr> \<rparr>)"
proof -
  have d: "certsDir example_flags \<noteq> []" by (simp add: example_flags_def)
  have r: "ReadFile garbage_world (path_Join garbage_world (certsDir example_flags) ''cacert.pem'')
     = Inr ''not a certificate''"
    by (simp add: garbage_world_def)
  have a: "AppendCertsFromPEM garbage_world ''not a certificate'' = []"
    by (simp add: garbage_world_def example_world_def)
  have t: "getTlsConfig garbage_world example_flags =
     Inr (Some \<lparr> RootCAs = [],
                  CurvePreferences = [CurveP521, CurveP384, CurveP256],
                  MinVersion = VersionTLS12,
                  CipherSuites = [TLS_ECDHE_RSA_WITH_AES_256_GCM_SHA384,
                                  TLS_ECDHE_ECDSA_WITH_AES_256_GCM_SHA384],
                  ServerName = ''example.com'' \<rparr>)"
    using getTlsConfig_readable [OF d r] a by (simp add: example_flags_def)
  have m: "main garbage_world example_flags =
     ([Listen ''127.0.0.1'' 8080],
      AcceptLoop \<lparr> Location = \<lparr> Scheme = ''wss'', Host = ''example.com:443'' \<rparr>,
                   Origin = \<lparr> Scheme = ''http'', Host = ''localhost'' \<rparr>,
                   TlsConfig = Some \<lparr> RootCAs = [],
                     CurvePreferences = [CurveP521, CurveP384, CurveP256],
                     MinVersion = VersionTLS12,
                     CipherSuites = [TLS_ECDHE_RSA_WITH_AES_256_GCM_SHA384,
                                     TLS_ECDHE_ECDSA_WITH_AES_256_GCM_SHA384],
                     ServerName = ''example.com'' \<rparr> \<rparr>)"
    unfolding main_def getWsConfig_def t
    by (simp add: websocket_NewConfig_def ws_url_def garbage_world_def example_world_def
        example_flags_def)
  show ?thesis using d r a t m by simp
qed

subsection \<open>The dialer\<close>

lemma scheme_rewrite_Suc [simp]:
  "strings_Replace ''ws'' ''ws'' ''http'' (Suc 0) = ''http''"
  "strings_Replace ''wss'' ''ws'' ''http'' (Suc 0) = ''https''"
  by (simp_all add: strings_Replace.simps)

lemma scheme_rewrite:
  "strings_Replace ''ws'' ''ws'' ''http'' 1 = ''http''"
  "strings_Replace ''wss'' ''ws'' ''http'' 1 = ''https''"
  by simp_all

lemma getProxiedConn_socks:
  "FromEnvironment w \<noteq> Direct \<Longrightarrow>
   getProxiedConn w turl =
     ([DialVia (FromEnvironment w) (Host turl)],
      as_conn (dialer_Dial w (FromEnvironment w) (Host turl)))"
  by (simp add: getProxiedConn_def Let_def)

lemma getProxiedConn_direct:
  "FromEnvironment w = Direct \<Longrightarrow>
   fst (ProxyFromEnvironment w
         (turl\<lparr> Scheme := strings_Replace (Scheme turl) ''ws'' ''http'' 1 \<rparr>)) = None \<Longrightarrow>
   getProxiedConn w turl = ([NetDial (Host turl)], as_conn (net_Dial w (Host turl)))"
  by (auto simp: getProxiedConn_def Let_def split: prod.splits)

lemma getProxiedConn_proxy_dial_fails:
  "FromEnvironment w = Direct \<Longrightarrow>
   fst (ProxyFromEnvironment w
         (turl\<lparr> Scheme := strings_Replace (Scheme turl) ''ws'' ''http'' 1 \<rparr>)) = Some pu \<Longrightarrow>
   net_Dial w (Host pu) = Inl e \<Longrightarrow>
   getProxiedConn w turl = ([NetDial (Host pu)], Inl e)"
  by (auto simp: getProxiedConn_def Let_def split: prod.splits)

lemma getProxiedConn_connect:
  "FromEnvironment w = Direct \<Longrightarrow>
   fst (ProxyFromEnvironment w
         (turl\<lparr> Scheme := strings_Replace (Scheme turl) ''ws'' ''http'' 1 \<rparr>)) = Some pu \<Longrightarrow>
   net_Dial w (Host pu) = Inr p \<Longrightarrow>
   getProxiedConn w turl =
     (case do_err (client_Do w p (Host turl)) of
        None \<Rightarrow>
          ([NetDial (Host pu), DoConnect p (Host turl), Hijacked p],
           Inr (Raw (Sock (sid p)
             (drop (resp_len (client_Do w p (Host turl)) + read_ahead (client_Do w p (Host turl)))
                (unread p)))))
      | Some e \<Rightarrow>
          if e \<noteq> ErrPersistEOF then ([NetDial (Host pu), DoConnect p (Host turl)], Inl e)
          else ([NetDial (Host pu), DoConnect p (Host turl), Hijacked p],
           Inr (Raw (Sock (sid p)
             (drop (resp_len (client_Do w p (Host turl)) + read_ahead (client_Do w p (Host turl)))
                (unread p))))))"
  by (auto simp: getProxiedConn_def ClientConn_Do_def ClientConn_Hijack_def
      NewProxyClientConn_def Let_def split: prod.splits option.splits)

text \<open>
  C4. \<open>getProxiedConn\<close> takes exactly one of three branches, in this order.
  When the proxy environment gives a dialer other than \<open>Direct\<close> (a SOCKS5 proxy was
  found), the only thing it does is dial the target's host:port through that dialer,
  whatever the HTTP proxy lookup would say. Otherwise it looks an HTTP(S) proxy up for the URL with the scheme
  rewritten (\<open>ws\<close> to \<open>http\<close>, \<open>wss\<close> to \<open>https\<close>); when there is one it dials the
  proxy, and then sends \<open>CONNECT\<close> naming the host:port of the URL it was given;
  when there is none it dials that host:port itself.
\<close>

theorem dialer_precedence:
  "(FromEnvironment w \<noteq> Direct \<longrightarrow>
      getProxiedConn w turl =
        ([DialVia (FromEnvironment w) (Host turl)],
         as_conn (dialer_Dial w (FromEnvironment w) (Host turl)))) \<and>
   (FromEnvironment w = Direct \<and>
    fst (ProxyFromEnvironment w
          (turl\<lparr> Scheme := strings_Replace (Scheme turl) ''ws'' ''http'' 1 \<rparr>)) = Some pu \<longrightarrow>
      (case net_Dial w (Host pu) of
         Inl e \<Rightarrow> getProxiedConn w turl = ([NetDial (Host pu)], Inl e)
       | Inr p \<Rightarrow>
           fst (getProxiedConn w turl) = [NetDial (Host pu), DoConnect p (Host turl)] \<or>
           fst (getProxiedConn w turl) =
             [NetDial (Host pu), DoConnect p (Host turl), Hijacked p])) \<and>
   (FromEnvironment w = Direct \<and>
    fst (ProxyFromEnvironment w
          (turl\<lparr> Scheme := strings_Replace (Scheme turl) ''ws'' ''http'' 1 \<rparr>)) = None \<longrightarrow>
      getProxiedConn w turl = ([NetDial (Host turl)], as_conn (net_Dial w (Host turl)))) \<and>
   strings_Replace ''ws'' ''ws'' ''http'' 1 = ''http'' \<and>
   strings_Replace ''wss'' ''ws'' ''http'' 1 = ''https''"
proof -
  have "fst (getProxiedConn w turl) = [NetDial (Host pu), DoConnect p (Host turl)] \<or>
        fst (getProxiedConn w turl) = [NetDial (Host pu), DoConnect p (Host turl), Hijacked p]"
    if "FromEnvironment w = Direct"
      and "fst (ProxyFromEnvironment w
          (turl\<lparr> Scheme := strings_Replace (Scheme turl) ''ws'' ''http'' 1 \<rparr>)) = Some pu"
      and "net_Dial w (Host pu) = Inr p" for p
    using getProxiedConn_connect [OF that] by (simp split: option.splits)
  then show ?thesis
    using getProxiedConn_socks [of w turl] getProxiedConn_direct [of w turl]
      getProxiedConn_proxy_dial_fails [of w turl pu] scheme_rewrite
    by (auto split: sum.splits)
qed

theorem dialer_precedence_witness:
  "FromEnvironment socks_world \<noteq> Direct \<and>
   fst (ProxyFromEnvironment socks_world \<lparr> Scheme = ''https'', Host = ''example.com:443'' \<rparr>)
     = Some proxy_url \<and>
   getProxiedConn socks_world example_url =
     ([DialVia (ProxyDialer ''socks5://127.0.0.1:1080'') ''example.com:443''],
      Inr (Raw (Sock 12 []))) \<and>
   FromEnvironment http_proxy_world = Direct \<and>
   fst (ProxyFromEnvironment http_proxy_world example_url) = None \<and>
   fst (ProxyFromEnvironment http_proxy_world \<lparr> Scheme = ''https'', Host = ''example.com:443'' \<rparr>)
     = Some proxy_url \<and>
   fst (getProxiedConn http_proxy_world example_url) =
     [NetDial ''proxy.internal:3128'', DoConnect (Sock 11 ''200 OK;early'') ''example.com:443'',
      Hijacked (Sock 11 ''200 OK;early'')] \<and>
   FromEnvironment example_world = Direct \<and>
   fst (ProxyFromEnvironment example_world \<lparr> Scheme = ''https'', Host = ''example.com:443'' \<rparr>)
     = None \<and>
   getProxiedConn example_world example_url =
     ([NetDial ''example.com:443''], Inr (Raw (Sock 11 [])))"
proof -
  have s: "getProxiedConn socks_world example_url =
     ([DialVia (ProxyDialer ''socks5://127.0.0.1:1080'') ''example.com:443''],
      Inr (Raw (Sock 12 [])))"
    using dialer_precedence [of socks_world example_url proxy_url]
    by (simp add: socks_world_def example_world_def as_conn_def example_url_def)
  have h: "fst (getProxiedConn http_proxy_world example_url) =
     [NetDial ''proxy.internal:3128'', DoConnect (Sock 11 ''200 OK;early'') ''example.com:443'',
      Hijacked (Sock 11 ''200 OK;early'')]"
    using dialer_precedence [of http_proxy_world example_url proxy_url]
    by (simp add: getProxiedConn_def http_proxy_world_def example_world_def proxy_url_def
        example_url_def ClientConn_Do_def ClientConn_Hijack_def NewProxyClientConn_def Let_def)
  have d: "getProxiedConn example_world example_url =
     ([NetDial ''example.com:443''], Inr (Raw (Sock 11 [])))"
    using dialer_precedence [of example_world example_url proxy_url]
    by (simp add: example_world_def as_conn_def example_url_def)
  show ?thesis
    using s h d
    by (simp add: socks_world_def http_proxy_world_def example_world_def example_url_def)
qed

text \<open>
  C8. In the \<open>CONNECT\<close> branch, a \<open>cc.Do\<close> that ends with \<open>ErrPersistEOF\<close> has
  the result of one that ends without error: the connection is hijacked and returned.
  Any other error of \<open>cc.Do\<close> is returned, and nothing is hijacked.
\<close>

theorem persist_eof_is_success:
  assumes "FromEnvironment w = Direct"
    and "fst (ProxyFromEnvironment w
          (turl\<lparr> Scheme := strings_Replace (Scheme turl) ''ws'' ''http'' 1 \<rparr>)) = Some pu"
    and "net_Dial w (Host pu) = Inr p"
  shows "(do_err (client_Do w p (Host turl)) = None \<or>
          do_err (client_Do w p (Host turl)) = Some ErrPersistEOF \<longrightarrow>
            getProxiedConn w turl =
              ([NetDial (Host pu), DoConnect p (Host turl), Hijacked p],
               Inr (fst (ClientConn_Hijack
                          (snd (ClientConn_Do w (NewProxyClientConn p) (Host turl))))))) \<and>
         (\<forall>e. do_err (client_Do w p (Host turl)) = Some e \<and> e \<noteq> ErrPersistEOF \<longrightarrow>
            getProxiedConn w turl = ([NetDial (Host pu), DoConnect p (Host turl)], Inl e))"
  using getProxiedConn_connect [OF assms]
  by (auto simp: ClientConn_Hijack_def ClientConn_Do_def NewProxyClientConn_def Let_def)

theorem persist_eof_is_success_witness:
  "FromEnvironment persist_eof_world = Direct \<and>
   fst (ProxyFromEnvironment persist_eof_world
         (example_url\<lparr> Scheme := strings_Replace (Scheme example_url) ''ws'' ''http'' 1 \<rparr>))
     = Some proxy_url \<and>
   net_Dial persist_eof_world (Host proxy_url) = Inr (Sock 11 ''200 OK;early'') \<and>
   do_err (client_Do persist_eof_world (Sock 11 ''200 OK;early'') (Host example_url))
     = Some ErrPersistEOF \<and>
   getProxiedConn persist_eof_world example_url =
     ([NetDial ''proxy.internal:3128'', DoConnect (Sock 11 ''200 OK;early'') ''example.com:443'',
       Hijacked (Sock 11 ''200 OK;early'')],
      Inr (Raw (Sock 11 []))) \<and>
   do_err (client_Do refused_world (Sock 11 ''200 OK;early'') (Host example_url))
     = Some (LibError ''unexpected EOF'') \<and>
   LibError ''unexpected EOF'' \<noteq> ErrPersistEOF \<and>
   getProxiedConn refused_world example_url =
     ([NetDial ''proxy.internal:3128'', DoConnect (Sock 11 ''200 OK;early'') ''example.com:443''],
      Inl (LibError ''unexpected EOF''))"
proof -
  have a: "FromEnvironment persist_eof_world = Direct"
    and a': "FromEnvironment refused_world = Direct"
    by (simp_all add: persist_eof_world_def refused_world_def http_proxy_world_def
        example_world_def)
  have b: "fst (ProxyFromEnvironment persist_eof_world
         (example_url\<lparr> Scheme := strings_Replace (Scheme example_url) ''ws'' ''http'' 1 \<rparr>))
     = Some proxy_url"
    and b': "fst (ProxyFromEnvironment refused_world
         (example_url\<lparr> Scheme := strings_Replace (Scheme example_url) ''ws'' ''http'' 1 \<rparr>))
     = Some proxy_url"
    by (simp_all add: persist_eof_world_def refused_world_def http_proxy_world_def
        example_url_def)
  have c: "net_Dial persist_eof_world (Host proxy_url) = Inr (Sock 11 ''200 OK;early'')"
    and c': "net_Dial refused_world (Host proxy_url) = Inr (Sock 11 ''200 OK;early'')"
    by (simp_all add: persist_eof_world_def refused_world_def http_proxy_world_def
        example_world_def)
  have d: "client_Do persist_eof_world =
      (\<lambda>s h. \<lparr> do_err = Some ErrPersistEOF, resp_len = 7, read_ahead = 5 \<rparr>)"
    and d': "client_Do refused_world =
      (\<lambda>s h. \<lparr> do_err = Some (LibError ''unexpected EOF''), resp_len = 0, read_ahead = 0 \<rparr>)"
    by (simp_all add: persist_eof_world_def refused_world_def)
  show ?thesis
    using a b c persist_eof_is_success [OF a b c] persist_eof_is_success [OF a' b' c']
    by (simp add: d d' ClientConn_Hijack_def ClientConn_Do_def NewProxyClientConn_def
        Let_def example_url_def proxy_url_def)
qed

lemma take_drop_split: "drop a xs = take b (drop a xs) @ drop (a + b) xs"
  by (metis append_take_drop_id drop_drop add.commute)

text \<open>
  C9. After a successful \<open>CONNECT\<close>, the bytes that follow the response on the
  proxy's socket are those left in the reader that \<open>Hijack\<close> returns, followed by
  those still unread on the socket. \<open>getProxiedConn\<close> returns the socket alone, so the
  bytes in the reader never reach its caller.
\<close>

theorem hijack_reader_discarded:
  assumes "FromEnvironment w = Direct"
    and "fst (ProxyFromEnvironment w
          (turl\<lparr> Scheme := strings_Replace (Scheme turl) ''ws'' ''http'' 1 \<rparr>)) = Some pu"
    and "net_Dial w (Host pu) = Inr p"
    and "do_err (client_Do w p (Host turl)) = None \<or>
         do_err (client_Do w p (Host turl)) = Some ErrPersistEOF"
  shows "\<exists>s. snd (getProxiedConn w turl) = Inr (Raw s) \<and>
           sid s = sid p \<and>
           snd (ClientConn_Hijack (snd (ClientConn_Do w (NewProxyClientConn p) (Host turl)))) =
             take (read_ahead (client_Do w p (Host turl)))
               (drop (resp_len (client_Do w p (Host turl))) (unread p)) \<and>
           drop (resp_len (client_Do w p (Host turl))) (unread p) =
             take (read_ahead (client_Do w p (Host turl)))
               (drop (resp_len (client_Do w p (Host turl))) (unread p)) @ unread s"
  using getProxiedConn_connect [OF assms(1-3)] assms(4)
    take_drop_split [of "resp_len (client_Do w p (Host turl))" "unread p"
      "read_ahead (client_Do w p (Host turl))"]
  by (auto simp: ClientConn_Hijack_def ClientConn_Do_def NewProxyClientConn_def Let_def
      simp del: drop_drop)

theorem hijack_reader_discarded_witness:
  "FromEnvironment http_proxy_world = Direct \<and>
   fst (ProxyFromEnvironment http_proxy_world
         (example_url\<lparr> Scheme := strings_Replace (Scheme example_url) ''ws'' ''http'' 1 \<rparr>))
     = Some proxy_url \<and>
   net_Dial http_proxy_world (Host proxy_url) = Inr (Sock 11 ''200 OK;early'') \<and>
   do_err (client_Do http_proxy_world (Sock 11 ''200 OK;early'') (Host example_url)) = None \<and>
   drop (resp_len (client_Do http_proxy_world (Sock 11 ''200 OK;early'') (Host example_url)))
     ''200 OK;early'' = ''early'' \<and>
   snd (ClientConn_Hijack (snd (ClientConn_Do http_proxy_world
         (NewProxyClientConn (Sock 11 ''200 OK;early'')) (Host example_url)))) = ''early'' \<and>
   snd (getProxiedConn http_proxy_world example_url) = Inr (Raw (Sock 11 []))"
proof -
  have a: "FromEnvironment http_proxy_world = Direct"
    by (simp add: http_proxy_world_def example_world_def)
  have b: "fst (ProxyFromEnvironment http_proxy_world
         (example_url\<lparr> Scheme := strings_Replace (Scheme example_url) ''ws'' ''http'' 1 \<rparr>))
     = Some proxy_url"
    by (simp add: http_proxy_world_def example_url_def)
  have c: "net_Dial http_proxy_world (Host proxy_url) = Inr (Sock 11 ''200 OK;early'')"
    by (simp add: http_proxy_world_def example_world_def)
  have d: "client_Do http_proxy_world =
      (\<lambda>s h. \<lparr> do_err = None, resp_len = 7, read_ahead = 5 \<rparr>)"
    by (simp add: http_proxy_world_def example_world_def)
  have e: "do_err (client_Do http_proxy_world (Sock 11 ''200 OK;early'') (Host example_url)) = None \<or>
      do_err (client_Do http_proxy_world (Sock 11 ''200 OK;early'') (Host example_url))
        = Some ErrPersistEOF"
    by (simp add: d)
  show ?thesis
    using a b c hijack_reader_discarded [OF a b c e]
    by (auto simp: d ClientConn_Hijack_def ClientConn_Do_def NewProxyClientConn_def Let_def
        intro!: sock.expand)
qed

text \<open>
  C10. When the HTTP(S) proxy lookup returns no proxy together with an error,
  \<open>getProxiedConn\<close> does exactly what it does with no proxy configured: it dials the
  target, and its result is the result of that dial. The error is dropped.
\<close>

theorem proxy_lookup_error_ignored:
  assumes "FromEnvironment w = Direct"
    and "ProxyFromEnvironment w
          (turl\<lparr> Scheme := strings_Replace (Scheme turl) ''ws'' ''http'' 1 \<rparr>) = (None, Some e)"
  shows "getProxiedConn w turl = ([NetDial (Host turl)], as_conn (net_Dial w (Host turl)))"
  using getProxiedConn_direct [OF assms(1), of turl] assms(2) by simp

theorem proxy_lookup_error_ignored_witness:
  "FromEnvironment bad_proxy_env_world = Direct \<and>
   ProxyFromEnvironment bad_proxy_env_world
     (example_url\<lparr> Scheme := strings_Replace (Scheme example_url) ''ws'' ''http'' 1 \<rparr>)
     = (None, Some (LibError ''invalid proxy address'')) \<and>
   getProxiedConn bad_proxy_env_world example_url =
     ([NetDial ''example.com:443''], Inr (Raw (Sock 11 [])))"
proof -
  have a: "FromEnvironment bad_proxy_env_world = Direct"
    by (simp add: bad_proxy_env_world_def example_world_def)
  have b: "ProxyFromEnvironment bad_proxy_env_world
     (example_url\<lparr> Scheme := strings_Replace (Scheme example_url) ''ws'' ''http'' 1 \<rparr>)
     = (None, Some (LibError ''invalid proxy address''))"
    by (simp add: bad_proxy_env_world_def)
  show ?thesis
    using a b proxy_lookup_error_ignored [OF a b]
    by (simp add: as_conn_def bad_proxy_env_world_def example_world_def example_url_def)
qed

subsection \<open>The handshake and the relay\<close>

lemma TlsClient_neq: "TlsClient c t \<noteq> c"
  by (induction c arbitrary: t) auto

lemma wrap_tls_cases:
  "(wrap_tls fl cfg tcp = TlsClient tcp (TlsConfig cfg)) = (certsDir fl \<noteq> [])"
  "(wrap_tls fl cfg tcp = tcp) = (certsDir fl = [])"
  using TlsClient_neq [of tcp "TlsConfig cfg"] by (auto simp: wrap_tls_def)

lemma getTlsConfig_Some_iff:
  "getTlsConfig w fl = Inr t \<Longrightarrow> (t \<noteq> None) = (certsDir fl \<noteq> [])"
  by (auto simp: getTlsConfig_def Let_def split: sum.splits list.splits if_splits)

lemma getWsConfig_Inr:
  assumes "getWsConfig w fl = Inr cfg"
  shows "ParseRequestURI w (url_String w (ws_url fl)) = Inr (Location cfg)"
    and "ParseRequestURI w ''http://localhost/'' = Inr (Origin cfg)"
    and "(TlsConfig cfg \<noteq> None) = (certsDir fl \<noteq> [])"
  using assms getTlsConfig_Some_iff [of w fl]
  by (auto simp: getWsConfig_def websocket_NewConfig_def split: sum.splits)

lemma getProxiedConn_events:
  "e \<in> set (fst (getProxiedConn w u)) \<Longrightarrow>
     (\<exists>d a. e = DialVia d a) \<or> (\<exists>a. e = NetDial a) \<or> (\<exists>s h. e = DoConnect s h) \<or>
     (\<exists>s. e = Hijacked s)"
  by (auto simp: getProxiedConn_def Let_def ClientConn_Hijack_def
      split: if_splits prod.splits option.splits sum.splits)

lemma pump_loop_events:
  "e \<in> set (fst (pump_loop w conn tcp i ch)) \<Longrightarrow>
     (\<exists>v. e = Recv v) \<or> (\<exists>p x. e = Print p x) \<or> (\<exists>c. e = CloseWrite c)"
proof (induction w conn tcp i ch rule: pump_loop.induct)
  case (1 w conn tcp i ch)
  from "1.prems" show ?case
    apply (subst (asm) pump_loop.simps)
    apply (auto simp: closeWrite_def split: if_splits list.splits option.splits prod.splits
        dest!: "1.IH")
    done
qed

lemma handleConnection_NewClientCall:
  assumes "getProxiedConn w (Location cfg) = (dial, Inr tcp0)"
  shows "(NewClientCall c \<in> set (fst (handleConnection w fl cfg conn))) =
           (c = wrap_tls fl cfg tcp0)"
proof -
  have a: "NewClientCall c \<notin> set dial"
    using getProxiedConn_events [of "NewClientCall c" w "Location cfg"] assms by auto
  have b: "NewClientCall c \<notin> set (fst (pump_loop w conn tcp i ch))" for tcp i ch
    using pump_loop_events [of "NewClientCall c" w conn tcp i ch] by auto
  show ?thesis
    using a b [of "wrap_tls fl cfg tcp0" 0 "channel w (WsConn (wrap_tls fl cfg tcp0)) conn"]
    by (auto simp: handleConnection_def assms Let_def split: option.splits prod.splits outcome.splits)
qed

text \<open>
  C7. The scheme of the location is \<open>wss\<close> exactly when a CA directory is set and
  \<open>ws\<close> exactly when none is; its host is \<open>target_host\<close>. The session wraps the dialed
  connection in a TLS client under the same condition, and leaves it as it is otherwise.
  With no CA directory \<open>getTlsConfig\<close> returns no configuration and no error. The
  configuration \<open>getWsConfig\<close> returns has the parsed location and the parsed constant
  origin \<open>http://localhost/\<close>, and a TLS configuration exactly when a CA directory is
  set. The connection handed to \<open>websocket.NewClient\<close> is the wrapped one.
\<close>

theorem tls_decision_agreement:
  "(Scheme (ws_url fl) = ''wss'') = (certsDir fl \<noteq> []) \<and>
   (Scheme (ws_url fl) = ''ws'') = (certsDir fl = []) \<and>
   Host (ws_url fl) = targetHost fl \<and>
   (wrap_tls fl cfg tcp = TlsClient tcp (TlsConfig cfg)) = (certsDir fl \<noteq> []) \<and>
   (wrap_tls fl cfg tcp = tcp) = (certsDir fl = []) \<and>
   (certsDir fl = [] \<longrightarrow> getTlsConfig w fl = Inr None) \<and>
   (getWsConfig w fl = Inr cfg \<longrightarrow>
      ParseRequestURI w (url_String w (ws_url fl)) = Inr (Location cfg) \<and>
      ParseRequestURI w ''http://localhost/'' = Inr (Origin cfg) \<and>
      (TlsConfig cfg \<noteq> None) = (certsDir fl \<noteq> [])) \<and>
   (getProxiedConn w (Location cfg) = (dial, Inr tcp) \<longrightarrow>
      (\<forall>c. (NewClientCall c \<in> set (fst (handleConnection w fl cfg conn))) =
             (c = wrap_tls fl cfg tcp)))"
proof -
  have 1: "(Scheme (ws_url fl) = ''wss'') = (certsDir fl \<noteq> [])"
    and 2: "(Scheme (ws_url fl) = ''ws'') = (certsDir fl = [])"
    and 3: "Host (ws_url fl) = targetHost fl"
    by (simp_all add: ws_url_def Let_def)
  have 4: "certsDir fl = [] \<longrightarrow> getTlsConfig w fl = Inr None"
    by (simp add: getTlsConfig_def)
  show ?thesis
    using 1 2 3 4 wrap_tls_cases [of fl cfg tcp] getWsConfig_Inr [of w fl cfg]
      handleConnection_NewClientCall [of w cfg dial tcp _ fl conn]
    by blast
qed

lemma example_getWsConfig:
  "getWsConfig example_world plain_flags = Inr plain_config"
  "getWsConfig example_world example_flags = Inr example_config"
proof -
  have d: "certsDir example_flags \<noteq> []" by (simp add: example_flags_def)
  show "getWsConfig example_world plain_flags = Inr plain_config"
    by (simp add: getWsConfig_def websocket_NewConfig_def ws_url_def getTlsConfig_def
        plain_flags_def example_flags_def example_world_def plain_config_def)
  show "getWsConfig example_world example_flags = Inr example_config"
    unfolding getWsConfig_def getTlsConfig_readable [OF d example_read]
    by (simp add: websocket_NewConfig_def ws_url_def example_flags_def example_world_def
        example_config_def example_url_def)
qed

lemma example_tls_dial:
  "getProxiedConn example_world (Location example_config) =
     ([NetDial ''example.com:443''], Inr (Raw (Sock 11 [])))"
  by (simp add: getProxiedConn_def example_world_def example_config_def example_url_def
      as_conn_def Let_def)

lemma example_plain_dial:
  "getProxiedConn example_world (Location plain_config) =
     ([NetDial ''example.com:443''], Inr (Raw (Sock 11 [])))"
  by (simp add: getProxiedConn_def example_world_def plain_config_def as_conn_def Let_def)

theorem tls_decision_agreement_witness:
  "certsDir plain_flags = [] \<and>
   getTlsConfig example_world plain_flags = Inr None \<and>
   getWsConfig example_world plain_flags = Inr plain_config \<and>
   Location plain_config = \<lparr> Scheme = ''ws'', Host = ''example.com:443'' \<rparr> \<and>
   getProxiedConn example_world (Location plain_config) =
     ([NetDial ''example.com:443''], Inr (Raw (Sock 11 []))) \<and>
   NewClientCall (Raw (Sock 11 [])) \<in>
     set (fst (handleConnection example_world plain_flags plain_config local_conn)) \<and>
   certsDir example_flags \<noteq> [] \<and>
   getWsConfig example_world example_flags = Inr example_config \<and>
   Location example_config = \<lparr> Scheme = ''wss'', Host = ''example.com:443'' \<rparr> \<and>
   TlsConfig example_config \<noteq> None \<and>
   getProxiedConn example_world (Location example_config) =
     ([NetDial ''example.com:443''], Inr (Raw (Sock 11 []))) \<and>
   NewClientCall (TlsClient (Raw (Sock 11 [])) (TlsConfig example_config)) \<in>
     set (fst (handleConnection example_world example_flags example_config local_conn))"
proof -
  have p: "certsDir plain_flags = []" by (simp add: plain_flags_def)
  have d: "certsDir example_flags \<noteq> []" by (simp add: example_flags_def)
  have l: "Location plain_config = \<lparr> Scheme = ''ws'', Host = ''example.com:443'' \<rparr>"
    "Location example_config = \<lparr> Scheme = ''wss'', Host = ''example.com:443'' \<rparr>"
    by (simp_all add: plain_config_def example_config_def example_url_def)
  show ?thesis
    using p d l example_getWsConfig example_plain_dial example_tls_dial
      tls_decision_agreement [where fl = plain_flags and cfg = plain_config
        and w = example_world and dial = "[NetDial ''example.com:443'']"
        and tcp = "Raw (Sock 11 [])" and conn = local_conn]
      tls_decision_agreement [where fl = example_flags and cfg = example_config
        and w = example_world and dial = "[NetDial ''example.com:443'']"
        and tcp = "Raw (Sock 11 [])" and conn = local_conn]
    by (simp add: wrap_tls_def)
qed

lemma pump_loop_empty: "pump_loop w conn tcp 0 [] = ([], Blocks)"
  by (simp add: pump_loop.simps)

lemma pump_loop_first_error:
  "pump_loop w conn tcp 0 (Some e # rest) =
     ([Recv (Some e), Print ''io.Copy(): '' e], Returns)"
  by (simp add: pump_loop.simps)

lemma pump_loop_first_nil:
  "pump_loop w conn tcp 0 (None # rest) =
     (case rest of
        [] \<Rightarrow> (Recv None # closeWrite w conn @ closeWrite w tcp, Blocks)
      | second # _ \<Rightarrow>
          (Recv None # closeWrite w conn @ closeWrite w tcp @ [Recv second] @
             (case second of
                None \<Rightarrow> closeWrite w conn @ closeWrite w tcp
              | Some e \<Rightarrow> [Print ''io.Copy(): '' e]),
           Returns))"
  by (simp add: pump_loop.simps split: list.splits option.splits)

lemma handleConnection_relay:
  assumes "getProxiedConn w (Location cfg) = (dial, Inr tcp0)"
    and "tcp = wrap_tls fl cfg tcp0"
    and "NewClient w cfg tcp = None"
  shows "handleConnection w fl cfg conn =
           (dial @ [NewClientCall tcp, Go (WsConn tcp) conn, Go conn (WsConn tcp)] @
              fst (pump_loop w conn tcp 0 (channel w (WsConn tcp) conn)) @
              (case snd (pump_loop w conn tcp 0 (channel w (WsConn tcp) conn)) of
                 Returns \<Rightarrow> [Close (WsConn tcp), Close conn]
               | Blocks \<Rightarrow> []),
            snd (pump_loop w conn tcp 0 (channel w (WsConn tcp) conn)))"
  using assms by (auto simp: handleConnection_def Let_def split: prod.splits)

lemma plain_wrap: "Raw (Sock 11 []) = wrap_tls plain_flags plain_config (Raw (Sock 11 []))"
  by (simp add: wrap_tls_def plain_flags_def)

lemma reset_dial:
  "getProxiedConn reset_world (Location plain_config) =
     ([NetDial ''example.com:443''], Inr (Raw (Sock 11 [])))"
  by (simp add: getProxiedConn_def reset_world_def example_world_def plain_config_def
      as_conn_def Let_def)

lemma late_reset_dial:
  "getProxiedConn late_reset_world (Location plain_config) =
     ([NetDial ''example.com:443''], Inr (Raw (Sock 11 [])))"
  by (simp add: getProxiedConn_def late_reset_world_def reset_world_def example_world_def
      plain_config_def as_conn_def Let_def)

lemma upgrade_refused_dial:
  "getProxiedConn upgrade_refused_world (Location plain_config) =
     ([NetDial ''example.com:443''], Inr (Raw (Sock 11 [])))"
  by (simp add: getProxiedConn_def upgrade_refused_world_def example_world_def
      plain_config_def as_conn_def Let_def)

lemma reset_channel:
  "channel reset_world (WsConn (Raw (Sock 11 []))) local_conn =
     [Some (LibError ''connection reset by peer''), None]"
  "channel late_reset_world (WsConn (Raw (Sock 11 []))) local_conn =
     [None, Some (LibError ''connection reset by peer'')]"
  by (simp_all add: channel_def iocopy_def reset_world_def late_reset_world_def
      example_world_def local_conn_def)

lemma io_Copy_bytes_open: "io_Copy_bytes False bs fin = (fin, concat bs)"
  by (induction bs) auto

lemma io_Copy_bytes_shut: "bs \<noteq> [] \<Longrightarrow> io_Copy_bytes True bs fin = (Some (LibError ''write: broken pipe''), [])"
  by (cases bs) auto


lemma received_append [simp]: "received (xs @ ys) = received xs @ received ys"
  by (simp add: received_def)

lemma printed_append [simp]: "printed (xs @ ys) = printed xs @ printed ys"
  by (simp add: printed_def)

lemma received_simps [simp]:
  "received [] = []"
  "received (Recv v # evs) = v # received evs"
  "received (DialVia d ad # evs) = received evs"
  "received (NetDial ad # evs) = received evs"
  "received (DoConnect s h # evs) = received evs"
  "received (Hijacked s # evs) = received evs"
  "received (Log p x # evs) = received evs"
  "received (Listen ad n # evs) = received evs"
  "received (NewClientCall c # evs) = received evs"
  "received (Go a b # evs) = received evs"
  "received (Print p x # evs) = received evs"
  "received (CloseWrite c # evs) = received evs"
  "received (Close c # evs) = received evs"
  by (simp_all add: received_def)

lemma printed_simps [simp]:
  "printed [] = []"
  "printed (Print p x # evs) = x # printed evs"
  "printed (DialVia d ad # evs) = printed evs"
  "printed (NetDial ad # evs) = printed evs"
  "printed (DoConnect s h # evs) = printed evs"
  "printed (Hijacked s # evs) = printed evs"
  "printed (Log p y # evs) = printed evs"
  "printed (Listen ad n # evs) = printed evs"
  "printed (NewClientCall c # evs) = printed evs"
  "printed (Go a b # evs) = printed evs"
  "printed (Recv v # evs) = printed evs"
  "printed (CloseWrite c # evs) = printed evs"
  "printed (Close c # evs) = printed evs"
  by (simp_all add: printed_def)

lemma getProxiedConn_silent:
  "received (fst (getProxiedConn w u)) = []"
  "printed (fst (getProxiedConn w u)) = []"
  by (auto simp: getProxiedConn_def Let_def ClientConn_Hijack_def received_def printed_def
      split: if_splits prod.splits option.splits sum.splits)

lemma closeWrite_silent [simp]:
  "received (closeWrite w c) = []"
  "printed (closeWrite w c) = []"
  by (simp_all add: closeWrite_def)

lemma both_fail_dial:
  "getProxiedConn both_fail_world (Location plain_config) =
     ([NetDial ''example.com:443''], Inr (Raw (Sock 11 [])))"
  by (simp add: getProxiedConn_def both_fail_world_def example_world_def plain_config_def
      as_conn_def Let_def)

lemma both_fail_channel:
  "channel both_fail_world (WsConn (Raw (Sock 11 []))) local_conn =
     [Some (LibError ''connection reset by peer''), Some (LibError ''write: broken pipe'')]"
  by (simp add: channel_def iocopy_def both_fail_world_def example_world_def local_conn_def)

lemma session_world_channel:
  assumes "ws \<noteq> conn"
  shows "channel (session_world w s ws conn tcp) ws conn = [None, fst (other_copy w s ws conn tcp)]"
  using assms
  by (auto simp: channel_def iocopy_def session_world_def other_dst_def io_Copy_bytes_open)

lemma late_bytes_lost:
  assumes "implementsCloseable w (write_target (other_dst s ws conn))"
    and "write_target (other_dst s ws conn) = conn \<or> write_target (other_dst s ws conn) = tcp"
    and "written_before s < length (other_reads s)"
  shows "other_copy w s ws conn tcp = (Some (LibError ''write: broken pipe''), [])"
    and "other_written w s ws conn tcp = concat (take (written_before s) (other_reads s))"
proof -
  have "write_target (other_dst s ws conn) \<in> set (shut_by (closeWrite w conn @ closeWrite w tcp))"
    using assms(1,2) by (auto simp: shut_by_def closeWrite_def)
  moreover have "drop (written_before s) (other_reads s) \<noteq> []"
    using assms(3) by simp
  ultimately show "other_copy w s ws conn tcp = (Some (LibError ''write: broken pipe''), [])"
    by (simp add: other_copy_def io_Copy_bytes_shut)
  then show "other_written w s ws conn tcp = concat (take (written_before s) (other_reads s))"
    by (simp add: other_written_def)
qed





text \<open>
  C1, as the code has it. An error in the first completion received is printed and
  \<open>handleConnection\<close> returns at once: no half-close, and the second completion is
  not received, so that an error it carries is never printed; the deferred calls close
  both connections. An error in the second completion (the first being \<open>nil\<close>) is
  printed after both have been received, and both connections are then closed.
\<close>

theorem relay_error_paths:
  assumes "getProxiedConn w (Location cfg) = (dial, Inr tcp0)"
    and "tcp = wrap_tls fl cfg tcp0"
    and "NewClient w cfg tcp = None"
    and "ws = WsConn tcp"
  shows "(\<forall>e rest. channel w ws conn = Some e # rest \<longrightarrow>
            handleConnection w fl cfg conn =
              (dial @ [NewClientCall tcp, Go ws conn, Go conn ws,
                       Recv (Some e), Print ''io.Copy(): '' e, Close ws, Close conn],
               Returns) \<and>
            received (fst (handleConnection w fl cfg conn)) = [Some e] \<and>
            printed (fst (handleConnection w fl cfg conn)) = [e]) \<and>
         (\<forall>e rest. channel w ws conn = None # Some e # rest \<longrightarrow>
            handleConnection w fl cfg conn =
              (dial @ [NewClientCall tcp, Go ws conn, Go conn ws, Recv None] @
                 closeWrite w conn @ closeWrite w tcp @
                 [Recv (Some e), Print ''io.Copy(): '' e, Close ws, Close conn],
               Returns) \<and>
            received (fst (handleConnection w fl cfg conn)) = [None, Some e] \<and>
            printed (fst (handleConnection w fl cfg conn)) = [e])"
proof -
  have d: "received dial = []" "printed dial = []"
    using getProxiedConn_silent [of w "Location cfg"] assms(1) by simp_all
  show ?thesis
    using handleConnection_relay [OF assms(1-3), of conn] assms(4)
    by (simp add: pump_loop_first_nil pump_loop_first_error d)
qed

theorem relay_error_paths_witness:
  "getProxiedConn reset_world (Location plain_config) =
     ([NetDial ''example.com:443''], Inr (Raw (Sock 11 []))) \<and>
   NewClient reset_world plain_config (Raw (Sock 11 [])) = None \<and>
   channel reset_world (WsConn (Raw (Sock 11 []))) local_conn =
     [Some (LibError ''connection reset by peer''), None] \<and>
   handleConnection reset_world plain_flags plain_config local_conn =
     ([NetDial ''example.com:443'', NewClientCall (Raw (Sock 11 [])),
       Go (WsConn (Raw (Sock 11 []))) local_conn, Go local_conn (WsConn (Raw (Sock 11 []))),
       Recv (Some (LibError ''connection reset by peer'')),
       Print ''io.Copy(): '' (LibError ''connection reset by peer''),
       Close (WsConn (Raw (Sock 11 []))), Close local_conn],
      Returns) \<and>
   channel late_reset_world (WsConn (Raw (Sock 11 []))) local_conn =
     [None, Some (LibError ''connection reset by peer'')] \<and>
   handleConnection late_reset_world plain_flags plain_config local_conn =
     ([NetDial ''example.com:443'', NewClientCall (Raw (Sock 11 [])),
       Go (WsConn (Raw (Sock 11 []))) local_conn, Go local_conn (WsConn (Raw (Sock 11 []))),
       Recv None, CloseWrite local_conn, CloseWrite (Raw (Sock 11 [])),
       Recv (Some (LibError ''connection reset by peer'')),
       Print ''io.Copy(): '' (LibError ''connection reset by peer''),
       Close (WsConn (Raw (Sock 11 []))), Close local_conn],
      Returns) \<and>
   channel both_fail_world (WsConn (Raw (Sock 11 []))) local_conn =
     [Some (LibError ''connection reset by peer''), Some (LibError ''write: broken pipe'')] \<and>
   handleConnection both_fail_world plain_flags plain_config local_conn =
     ([NetDial ''example.com:443'', NewClientCall (Raw (Sock 11 [])),
       Go (WsConn (Raw (Sock 11 []))) local_conn, Go local_conn (WsConn (Raw (Sock 11 []))),
       Recv (Some (LibError ''connection reset by peer'')),
       Print ''io.Copy(): '' (LibError ''connection reset by peer''),
       Close (WsConn (Raw (Sock 11 []))), Close local_conn],
      Returns) \<and>
   received (fst (handleConnection both_fail_world plain_flags plain_config local_conn)) =
     [Some (LibError ''connection reset by peer'')] \<and>
   printed (fst (handleConnection both_fail_world plain_flags plain_config local_conn)) =
     [LibError ''connection reset by peer'']"
proof -
  have n: "NewClient reset_world plain_config (Raw (Sock 11 [])) = None"
    and n': "NewClient late_reset_world plain_config (Raw (Sock 11 [])) = None"
    and n'': "NewClient both_fail_world plain_config (Raw (Sock 11 [])) = None"
    by (simp_all add: reset_world_def late_reset_world_def both_fail_world_def example_world_def)
  have i: "closeWrite late_reset_world local_conn = [CloseWrite local_conn]"
    "closeWrite late_reset_world (Raw (Sock 11 [])) = [CloseWrite (Raw (Sock 11 []))]"
    by (simp_all add: closeWrite_def late_reset_world_def reset_world_def example_world_def
        local_conn_def)
  show ?thesis
    using reset_dial n reset_channel both_fail_channel
      relay_error_paths [OF reset_dial plain_wrap n refl, of local_conn]
      relay_error_paths [OF late_reset_dial plain_wrap n' refl, of local_conn]
      relay_error_paths [OF both_fail_dial plain_wrap n'' refl, of local_conn]
    by (simp add: i)
qed

text \<open>
  C1 as stated fails: in \<open>reset_world\<close> the first completion is an error and the
  second one, which does arrive on the channel, is never received before the
  connections are closed.
\<close>

theorem first_error_skips_second_wait:
  "channel reset_world (WsConn (Raw (Sock 11 []))) local_conn =
     [Some (LibError ''connection reset by peer''), None] \<and>
   handleConnection reset_world plain_flags plain_config local_conn =
     ([NetDial ''example.com:443'', NewClientCall (Raw (Sock 11 [])),
       Go (WsConn (Raw (Sock 11 []))) local_conn, Go local_conn (WsConn (Raw (Sock 11 []))),
       Recv (Some (LibError ''connection reset by peer'')),
       Print ''io.Copy(): '' (LibError ''connection reset by peer''),
       Close (WsConn (Raw (Sock 11 []))), Close local_conn],
      Returns) \<and>
   Recv None \<notin> set (fst (handleConnection reset_world plain_flags plain_config local_conn))"
proof -
  have n: "NewClient reset_world plain_config (Raw (Sock 11 [])) = None"
    by (simp add: reset_world_def example_world_def)
  have h: "handleConnection reset_world plain_flags plain_config local_conn =
     ([NetDial ''example.com:443'', NewClientCall (Raw (Sock 11 [])),
       Go (WsConn (Raw (Sock 11 []))) local_conn, Go local_conn (WsConn (Raw (Sock 11 []))),
       Recv (Some (LibError ''connection reset by peer'')),
       Print ''io.Copy(): '' (LibError ''connection reset by peer''),
       Close (WsConn (Raw (Sock 11 []))), Close local_conn],
      Returns)"
    using handleConnection_relay [OF reset_dial plain_wrap n, of local_conn]
    by (simp add: reset_channel pump_loop_first_error)
  show ?thesis using reset_channel(1) h by simp
qed

lemma refused_dial:
  "getProxiedConn refused_world (Location plain_config) =
     ([NetDial ''proxy.internal:3128'', DoConnect (Sock 11 ''200 OK;early'') ''example.com:443''],
      Inl (LibError ''unexpected EOF''))"
  by (simp add: getProxiedConn_def refused_world_def http_proxy_world_def example_world_def
      plain_config_def proxy_url_def ClientConn_Do_def NewProxyClientConn_def Let_def)

text \<open>
  C2 at two failing inputs. In the first the dial succeeds and the WebSocket upgrade is
  refused: \<open>handleConnection\<close> logs the error, closes the local connection and
  returns; the upstream connection it dialed is not closed. In the second the proxy is
  dialed and its answer to \<open>CONNECT\<close> is an error: \<open>getProxiedConn\<close> returns the error,
  and the socket to the proxy is not closed either.
\<close>

theorem upgrade_failure_leaves_upstream_open:
  "getProxiedConn upgrade_refused_world (Location plain_config) =
     ([NetDial ''example.com:443''], Inr (Raw (Sock 11 []))) \<and>
   NewClient upgrade_refused_world plain_config (Raw (Sock 11 [])) = Some (LibError ''bad status'') \<and>
   handleConnection upgrade_refused_world plain_flags plain_config local_conn =
     ([NetDial ''example.com:443'', NewClientCall (Raw (Sock 11 [])),
       Log ''websocket.NewClient(): '' (LibError ''bad status''), Close local_conn],
      Returns) \<and>
   Close (Raw (Sock 11 [])) \<notin>
     set (fst (handleConnection upgrade_refused_world plain_flags plain_config local_conn)) \<and>
   net_Dial refused_world ''proxy.internal:3128'' = Inr (Sock 11 ''200 OK;early'') \<and>
   handleConnection refused_world plain_flags plain_config local_conn =
     ([NetDial ''proxy.internal:3128'', DoConnect (Sock 11 ''200 OK;early'') ''example.com:443'',
       Log ''getProxiedConn(): '' (LibError ''unexpected EOF''), Close local_conn],
      Returns)"
proof -
  have n: "NewClient upgrade_refused_world plain_config (Raw (Sock 11 []))
      = Some (LibError ''bad status'')"
    by (simp add: upgrade_refused_world_def)
  have h: "handleConnection upgrade_refused_world plain_flags plain_config local_conn =
     ([NetDial ''example.com:443'', NewClientCall (Raw (Sock 11 [])),
       Log ''websocket.NewClient(): '' (LibError ''bad status''), Close local_conn],
      Returns)"
    using plain_wrap
    by (simp add: handleConnection_def upgrade_refused_dial n)
  have d: "net_Dial refused_world ''proxy.internal:3128'' = Inr (Sock 11 ''200 OK;early'')"
    by (simp add: refused_world_def http_proxy_world_def)
  have r: "handleConnection refused_world plain_flags plain_config local_conn =
     ([NetDial ''proxy.internal:3128'', DoConnect (Sock 11 ''200 OK;early'') ''example.com:443'',
       Log ''getProxiedConn(): '' (LibError ''unexpected EOF''), Close local_conn],
      Returns)"
    by (simp add: handleConnection_def refused_dial)
  show ?thesis using upgrade_refused_dial n h d r by (simp add: local_conn_def)
qed

end
